theory Spec2Isabelle
  imports Main "HOL-Library.Word"
begin

unbundle bit_operations_syntax

section \<open>Values, pointers and results\<close>

text \<open>
  The embedding follows \<open>oneflow/core/framework/tensor_impl.cpp\<close>. Objects held through a
  \<open>std::shared_ptr\<close> and mutated after construction (shapes, eager blob objects, tensor
  storages, autograd metadata) live in a store and are named by their address; a nullable
  \<open>shared_ptr\<close> is an \<open>addr option\<close>. Immutable interned values (\<open>Symbol<T>\<close>) are
  modelled by the value itself; the device symbol alone is optional, because the source
  creates the empty symbol (\<open>Symbol<Device>()\<close>) and tests for it.
\<close>

type_synonym addr = nat

text \<open>A \<open>Shape\<close> is its vector of \<open>int64_t\<close> extents.\<close>

type_synonym Shape = "int list"

text \<open>Of the \<open>DataType\<close> enumeration the source names \<open>kInvalidDataType\<close> only.\<close>

datatype DataType = kInvalidDataType | kDataType nat

text \<open>\<open>MemoryCase\<close> is opaque to this file.\<close>

type_synonym MemoryCase = nat

text \<open>
  \<open>Maybe<T>\<close>: a value or a typed error. Dereferencing an empty pointer or symbol is
  undefined behaviour in C++; it is kept apart from the typed errors as a third outcome.
  \<open>CHECK_JUST\<close> on a failed result terminates the process: the fourth outcome.
\<close>

datatype Error = CheckFailedError | ExternalError nat

datatype 'a Maybe = Ok 'a | Failed Error | NullDereference | Aborted Error

section \<open>Placement value objects\<close>

text \<open>
  Modelled from the spec: \<open>cfg::ParallelDistribution\<close> and \<open>ParallelDesc\<close> are declared
  outside the given sources. A distribution is a sequence of entries, each \<open>Split(axis)\<close>,
  \<open>Broadcast\<close> or \<open>PartialSum\<close>; a \<open>ParallelDesc\<close> is a device kind and the
  (machine id, device id) pairs of the group, in rank order.
\<close>

datatype SbpParallel = Split nat | Broadcast | PartialSum

type_synonym ParallelDistribution = "SbpParallel list"

record ParallelDesc =
  device_tag :: string
  machine_device_ids :: "(int \<times> int) list"

text \<open>
  Modelled from the spec: \<open>Device\<close> is declared outside the given sources; the file uses its
  \<open>mem_case()\<close>, its \<open>parallel_desc_ptr()\<close> and its equality.
\<close>

record Device =
  device_type :: string
  device_id :: int
  mem_case :: MemoryCase
  parallel_desc_ptr :: ParallelDesc

section \<open>Tensor metas\<close>

record MirroredTensorMeta =
  shape_ptr :: addr
  dtype :: DataType
  device :: "Device option"
  is_dynamic :: bool

record ConsistentTensorMeta =
  c_shape_ptr :: addr
  c_dtype :: DataType
  parallel_distribution :: ParallelDistribution
  parallel_desc :: ParallelDesc
  c_is_dynamic :: bool

text \<open>
  A \<open>std::shared_ptr<const MirroredTensorMeta>\<close>: the meta is never written after its
  construction, so the pointer is the address together with the object it designates.
\<close>

record MetaPtr =
  meta_addr :: addr
  meta :: MirroredTensorMeta

section \<open>Store objects\<close>

text \<open>
  Modelled from the spec: \<open>AutogradMeta\<close> is declared outside the given sources; it holds
  the gradient slots that \<open>TensorImpl\<close> delegates to. A tensor and a \<open>TensorArg\<close> are
  named by their address here.
\<close>

record AutogradMeta =
  am_acc_grad :: "addr option"
  am_current_grad :: addr
  am_retain_grad :: bool

text \<open>
  Modelled from the spec: \<open>vm::EagerBlobObject\<close> is declared outside the given sources: the
  blob descriptor (shape pointer, data type), the memory case, the tensor buffer, the
  parallel description and the shape-synced flag.
\<close>

record EagerBlobObject =
  blob_mem_case :: MemoryCase
  blob_shape_ptr :: addr
  blob_data_type :: DataType
  tensor_buffer :: addr
  blob_parallel_desc :: ParallelDesc
  is_shape_synced :: bool

text \<open>
  The closure that \<open>UpdateTensorStorage\<close> installs captures the blob and the parallel
  description; it is kept as data and run by \<open>run_releaser_hook\<close> below.
\<close>

datatype ReleaserHook = ReleaseTensorHook addr ParallelDesc

text \<open>
  Modelled from the spec: \<open>TensorStorage\<close> is declared outside the given sources: it owns
  the buffer and holds the release hook.
\<close>

record TensorStorage =
  buffer :: addr
  releaser_hook :: "ReleaserHook option"

text \<open>The instructions this file hands to the instruction builder.\<close>

datatype Instruction =
    ReleaseTensor addr ParallelDesc
  | AccessBlobByCallback addr string

record State =
  autograd_metas :: "addr \<Rightarrow> AutogradMeta"
  shapes :: "addr \<Rightarrow> Shape"
  blobs :: "addr \<Rightarrow> EagerBlobObject"
  storages :: "addr \<Rightarrow> TensorStorage"
  next_addr :: addr
  vm_queue :: "Instruction list"

section \<open>TensorImpl and the gradient slot\<close>

record TensorImpl =
  autograd_meta :: "addr option"
  requires_grad :: bool
  is_leaf :: bool

record MirroredTensorImpl = TensorImpl +
  tensor_meta :: MetaPtr

record EagerMirroredTensorImpl = MirroredTensorImpl +
  eager_blob_object :: "addr option"
  tensor_storage :: "addr option"

text \<open>
  Modelled from the spec: the member functions of \<open>AutogradMeta\<close> that \<open>TensorImpl\<close>
  calls read and write the gradient slots.
\<close>

definition AutogradMeta_acc_grad :: "AutogradMeta \<Rightarrow> addr option" where
  "AutogradMeta_acc_grad am = am_acc_grad am"

definition AutogradMeta_current_grad :: "AutogradMeta \<Rightarrow> addr" where
  "AutogradMeta_current_grad am = am_current_grad am"

definition AutogradMeta_set_acc_grad :: "AutogradMeta \<Rightarrow> addr option \<Rightarrow> AutogradMeta" where
  "AutogradMeta_set_acc_grad am grad = am\<lparr>am_acc_grad := grad\<rparr>"

definition AutogradMeta_mut_acc_grad :: "AutogradMeta \<Rightarrow> addr option" where
  "AutogradMeta_mut_acc_grad am = am_acc_grad am"

definition AutogradMeta_set_retain_grad :: "AutogradMeta \<Rightarrow> bool \<Rightarrow> AutogradMeta" where
  "AutogradMeta_set_retain_grad am retain_grad = am\<lparr>am_retain_grad := retain_grad\<rparr>"

text \<open>
  \<open>CHECK_NOTNULL_OR_RETURN(autograd_meta_)\<close> returns a check-failed error to the caller when
  the pointer is null; otherwise the call goes to the \<open>AutogradMeta\<close> object.
\<close>

definition acc_grad :: "State \<Rightarrow> 'a TensorImpl_scheme \<Rightarrow> addr option Maybe" where
  "acc_grad s this =
     (case autograd_meta this of
        None \<Rightarrow> Failed CheckFailedError
      | Some a \<Rightarrow> Ok (AutogradMeta_acc_grad (autograd_metas s a)))"

definition current_grad :: "State \<Rightarrow> 'a TensorImpl_scheme \<Rightarrow> addr Maybe" where
  "current_grad s this =
     (case autograd_meta this of
        None \<Rightarrow> Failed CheckFailedError
      | Some a \<Rightarrow> Ok (AutogradMeta_current_grad (autograd_metas s a)))"

definition set_acc_grad ::
  "State \<Rightarrow> 'a TensorImpl_scheme \<Rightarrow> addr option \<Rightarrow> unit Maybe \<times> State" where
  "set_acc_grad s this grad =
     (case autograd_meta this of
        None \<Rightarrow> (Failed CheckFailedError, s)
      | Some a \<Rightarrow>
          (Ok (),
           s\<lparr>autograd_metas :=
                (autograd_metas s)(a := AutogradMeta_set_acc_grad (autograd_metas s a) grad)\<rparr>))"

definition mut_acc_grad :: "State \<Rightarrow> 'a TensorImpl_scheme \<Rightarrow> addr option Maybe" where
  "mut_acc_grad s this =
     (case autograd_meta this of
        None \<Rightarrow> Failed CheckFailedError
      | Some a \<Rightarrow> Ok (AutogradMeta_mut_acc_grad (autograd_metas s a)))"

definition set_retain_grad ::
  "State \<Rightarrow> 'a TensorImpl_scheme \<Rightarrow> bool \<Rightarrow> unit Maybe \<times> State" where
  "set_retain_grad s this retain_grad =
     (case autograd_meta this of
        None \<Rightarrow> (Failed CheckFailedError, s)
      | Some a \<Rightarrow>
          (Ok (),
           s\<lparr>autograd_metas :=
                (autograd_metas s)
                  (a := AutogradMeta_set_retain_grad (autograd_metas s a) retain_grad)\<rparr>))"

section \<open>Equality and hash of the metas\<close>

text \<open>
  \<open>std::hash<Shape>\<close>, \<open>std::hash<DataType>\<close>, \<open>std::hash<Device>\<close> and the hashes of the
  two symbols are defined outside the given sources; they are parameters. \<open>size_t\<close> is a
  64-bit word and \<open>^\<close> is bitwise exclusive or.
\<close>

record Hashers =
  hash_Shape :: "Shape \<Rightarrow> 64 word"
  hash_DataType :: "DataType \<Rightarrow> 64 word"
  hash_Device :: "Device \<Rightarrow> 64 word"
  hash_ParallelDistribution :: "ParallelDistribution \<Rightarrow> 64 word"
  hash_ParallelDesc :: "ParallelDesc \<Rightarrow> 64 word"

text \<open>
  \<open>MirroredTensorMeta::operator==\<close>: \<open>&&\<close> evaluates from the left and stops at the first
  false operand, so the two device symbols are dereferenced only when shape and data type
  agree.
\<close>

definition MirroredTensorMeta_eq ::
  "State \<Rightarrow> MirroredTensorMeta \<Rightarrow> MirroredTensorMeta \<Rightarrow> bool Maybe" where
  "MirroredTensorMeta_eq s this other =
     (if shapes s (shape_ptr this) \<noteq> shapes s (shape_ptr other) then Ok False
      else if dtype this \<noteq> dtype other then Ok False
      else (case device this of
              None \<Rightarrow> NullDereference
            | Some d \<Rightarrow>
                (case device other of
                   None \<Rightarrow> NullDereference
                 | Some d' \<Rightarrow> Ok (d = d'))))"

definition MirroredTensorMeta_CalcHashValue ::
  "Hashers \<Rightarrow> State \<Rightarrow> MirroredTensorMeta \<Rightarrow> 64 word Maybe" where
  "MirroredTensorMeta_CalcHashValue H s this =
     (case device this of
        None \<Rightarrow> NullDereference
      | Some d \<Rightarrow>
          Ok (hash_Shape H (shapes s (shape_ptr this)) XOR hash_DataType H (dtype this)
              XOR hash_Device H d))"

text \<open>\<open>ConsistentTensorMeta::operator==\<close> compares the two symbols themselves.\<close>

definition ConsistentTensorMeta_eq ::
  "State \<Rightarrow> ConsistentTensorMeta \<Rightarrow> ConsistentTensorMeta \<Rightarrow> bool" where
  "ConsistentTensorMeta_eq s this other =
     (shapes s (c_shape_ptr this) = shapes s (c_shape_ptr other)
      \<and> c_dtype this = c_dtype other
      \<and> parallel_distribution this = parallel_distribution other
      \<and> parallel_desc this = parallel_desc other)"

definition ConsistentTensorMeta_CalcHashValue ::
  "Hashers \<Rightarrow> State \<Rightarrow> ConsistentTensorMeta \<Rightarrow> 64 word" where
  "ConsistentTensorMeta_CalcHashValue H s this =
     (hash_Shape H (shapes s (c_shape_ptr this)) XOR hash_DataType H (c_dtype this)
      XOR hash_ParallelDistribution H (parallel_distribution this)
      XOR hash_ParallelDesc H (parallel_desc this))"

section \<open>Mirrored tensor impls\<close>

text \<open>\<open>std::make_shared\<close>: the next unused address.\<close>

definition alloc :: "State \<Rightarrow> addr \<times> State" where
  "alloc s = (next_addr s, s\<lparr>next_addr := Suc (next_addr s)\<rparr>)"

text \<open>
  Modelled from the spec: the constructors of \<open>MirroredTensorMeta\<close>, \<open>TensorImpl\<close>,
  \<open>MirroredTensorImpl\<close> and \<open>LazyMirroredTensorImpl\<close> are declared in \<open>tensor_impl.h\<close>,
  outside the given sources. They store their arguments; the autograd metadata starts
  absent and a new meta is not dynamic.
\<close>

definition MirroredTensorMeta_new ::
  "addr \<Rightarrow> DataType \<Rightarrow> Device option \<Rightarrow> MirroredTensorMeta" where
  "MirroredTensorMeta_new shape data_type dev =
     \<lparr>shape_ptr = shape, dtype = data_type, device = dev, is_dynamic = False\<rparr>"

definition LazyMirroredTensorImpl_new :: "MetaPtr \<Rightarrow> bool \<Rightarrow> bool \<Rightarrow> MirroredTensorImpl" where
  "LazyMirroredTensorImpl_new m rg lf =
     \<lparr>autograd_meta = None, requires_grad = rg, is_leaf = lf, tensor_meta = m\<rparr>"

text \<open>
  The constructors of \<open>EagerMirroredTensorImpl\<close> are in the source: each hands the meta,
  \<open>requires_grad\<close> and \<open>is_leaf\<close> to \<open>MirroredTensorImpl\<close>; the one with four
  arguments also stores the tensor storage, and the one without arguments takes the
  default meta. The blob pointer starts empty.
\<close>

definition EagerMirroredTensorImpl_new3 ::
  "MetaPtr \<Rightarrow> bool \<Rightarrow> bool \<Rightarrow> EagerMirroredTensorImpl" where
  "EagerMirroredTensorImpl_new3 m rg lf =
     \<lparr>autograd_meta = None, requires_grad = rg, is_leaf = lf, tensor_meta = m,
      eager_blob_object = None, tensor_storage = None\<rparr>"

definition EagerMirroredTensorImpl_new4 ::
  "MetaPtr \<Rightarrow> addr option \<Rightarrow> bool \<Rightarrow> bool \<Rightarrow> EagerMirroredTensorImpl" where
  "EagerMirroredTensorImpl_new4 m storage rg lf =
     \<lparr>autograd_meta = None, requires_grad = rg, is_leaf = lf, tensor_meta = m,
      eager_blob_object = None, tensor_storage = storage\<rparr>"

definition NewDefaultMirroredTensorMeta :: "State \<Rightarrow> MetaPtr \<times> State" where
  "NewDefaultMirroredTensorMeta s =
     (let (shape, s1) = alloc s;
          s2 = s1\<lparr>shapes := (shapes s1)(shape := [])\<rparr>;
          (m, s3) = alloc s2
      in (\<lparr>meta_addr = m, meta = MirroredTensorMeta_new shape kInvalidDataType None\<rparr>, s3))"

definition EagerMirroredTensorImpl_new0 :: "State \<Rightarrow> EagerMirroredTensorImpl \<times> State" where
  "EagerMirroredTensorImpl_new0 s =
     (let (m, s1) = NewDefaultMirroredTensorMeta s
      in (EagerMirroredTensorImpl_new3 m False False, s1))"

definition LazyMirroredTensorImpl_detach :: "MirroredTensorImpl \<Rightarrow> MirroredTensorImpl Maybe" where
  "LazyMirroredTensorImpl_detach this =
     Ok (LazyMirroredTensorImpl_new (tensor_meta this) False True)"

definition EagerMirroredTensorImpl_detach ::
  "EagerMirroredTensorImpl \<Rightarrow> EagerMirroredTensorImpl Maybe" where
  "EagerMirroredTensorImpl_detach this =
     (let detached_impl =
            EagerMirroredTensorImpl_new4 (tensor_meta this) (tensor_storage this) False True
      in Ok (detached_impl\<lparr>eager_blob_object := eager_blob_object this\<rparr>))"

section \<open>The instruction builder\<close>

text \<open>
  Modelled from the spec: \<open>InstructionsBuilder\<close> and \<open>PhysicalRun\<close> are outside the given
  sources. A builder collects the instructions issued to it, in order; \<open>PhysicalRun\<close>
  runs the build function on an empty builder and, when that succeeds, appends what was
  collected to the queue of the execution core and returns. Nothing is executed by the
  caller.
\<close>

type_synonym InstructionsBuilder = "Instruction list"

definition builder_ReleaseTensor ::
  "InstructionsBuilder \<Rightarrow> addr \<Rightarrow> ParallelDesc \<Rightarrow> unit Maybe \<times> InstructionsBuilder" where
  "builder_ReleaseTensor builder blob pd = (Ok (), builder @ [ReleaseTensor blob pd])"

definition builder_AccessBlobByCallback ::
  "InstructionsBuilder \<Rightarrow> addr \<Rightarrow> string \<Rightarrow> unit Maybe \<times> InstructionsBuilder" where
  "builder_AccessBlobByCallback builder blob modifier =
     (Ok (), builder @ [AccessBlobByCallback blob modifier])"

definition PhysicalRun ::
  "(InstructionsBuilder \<Rightarrow> unit Maybe \<times> InstructionsBuilder) \<Rightarrow> State \<Rightarrow> unit Maybe \<times> State" where
  "PhysicalRun Build s =
     (case Build [] of
        (Ok u, instructions) \<Rightarrow> (Ok (), s\<lparr>vm_queue := vm_queue s @ instructions\<rparr>)
      | (r, instructions) \<Rightarrow> (r, s))"

text \<open>\<open>CHECK_JUST\<close>: a typed failure ends the process.\<close>

definition CHECK_JUST :: "'a Maybe \<Rightarrow> 'a Maybe" where
  "CHECK_JUST r = (case r of Failed e \<Rightarrow> Aborted e | _ \<Rightarrow> r)"

text \<open>
  The body of the closure of \<open>UpdateTensorStorage\<close>: one \<open>ReleaseTensor\<close> instruction for
  the captured blob, issued through \<open>PhysicalRun\<close>. The buffer argument is not used.
\<close>

definition run_releaser_hook :: "ReleaserHook \<Rightarrow> addr \<Rightarrow> State \<Rightarrow> unit Maybe \<times> State" where
  "run_releaser_hook hook buf s =
     (case hook of
        ReleaseTensorHook eager_blob pd \<Rightarrow>
          (case PhysicalRun (\<lambda>builder. builder_ReleaseTensor builder eager_blob pd) s of
             (r, s') \<Rightarrow> (CHECK_JUST r, s')))"

section \<open>EagerMirroredTensorImpl\<close>

text \<open>
  The member functions take the store and the impl and return the result with both as
  they are when the function returns, also on a failure. \<open>device()\<close> and \<open>dtype()\<close> read the
  tensor meta. How many pointers hold a storage is not tracked here; the section on
  ownership below does that for one storage.
\<close>

definition UpdateTensorStorage ::
  "State \<Rightarrow> EagerMirroredTensorImpl \<Rightarrow> unit Maybe \<times> State \<times> EagerMirroredTensorImpl" where
  "UpdateTensorStorage s this =
     (case eager_blob_object this of
        None \<Rightarrow> (NullDereference, s, this)
      | Some blob \<Rightarrow>
          (let (storage, s1) = alloc s;
               s2 = s1\<lparr>storages := (storages s1)
                      (storage := \<lparr>buffer = tensor_buffer (blobs s1 blob),
                                   releaser_hook = None\<rparr>)\<rparr>;
               this1 = this\<lparr>tensor_storage := Some storage\<rparr>
           in case device (meta (tensor_meta this1)) of
                None \<Rightarrow> (NullDereference, s2, this1)
              | Some d \<Rightarrow>
                  (Ok (),
                   s2\<lparr>storages := (storages s2)
                        (storage := (storages s2 storage)
                           \<lparr>releaser_hook :=
                              Some (ReleaseTensorHook blob (parallel_desc_ptr d))\<rparr>)\<rparr>,
                   this1)))"

definition set_eager_blob_object ::
  "State \<Rightarrow> EagerMirroredTensorImpl \<Rightarrow> addr
   \<Rightarrow> unit Maybe \<times> State \<times> EagerMirroredTensorImpl" where
  "set_eager_blob_object s this blob =
     (let this1 = this\<lparr>eager_blob_object := Some blob\<rparr>
      in if blob_shape_ptr (blobs s blob) \<noteq> shape_ptr (meta (tensor_meta this1))
         then (Failed CheckFailedError, s, this1)
         else if blob_data_type (blobs s blob) \<noteq> dtype (meta (tensor_meta this1))
         then (Failed CheckFailedError, s, this1)
         else UpdateTensorStorage s this1)"

text \<open>
  Whether a new \<open>EagerBlobObject\<close> starts with its shape synced is decided by its
  constructor, outside the given sources: the parameter \<open>synced0\<close>.
\<close>

definition InitEagerBlobObject ::
  "bool \<Rightarrow> State \<Rightarrow> EagerMirroredTensorImpl \<Rightarrow> MemoryCase
   \<Rightarrow> unit Maybe \<times> State \<times> EagerMirroredTensorImpl" where
  "InitEagerBlobObject synced0 s this mc =
     (case device (meta (tensor_meta this)) of
        None \<Rightarrow> (Failed CheckFailedError, s, this)
      | Some tensor_device \<Rightarrow>
          (let mut_shape = shape_ptr (meta (tensor_meta this));
               (buf, s1) = alloc s;
               (blob, s2) = alloc s1;
               s3 = s2\<lparr>blobs := (blobs s2)
                      (blob := \<lparr>blob_mem_case = mc, blob_shape_ptr = mut_shape,
                                blob_data_type = dtype (meta (tensor_meta this)),
                                tensor_buffer = buf,
                                blob_parallel_desc = parallel_desc_ptr tensor_device,
                                is_shape_synced = synced0\<rparr>)\<rparr>
           in set_eager_blob_object s3 this blob))"

definition InitEagerBlobObjectAndTensorStorage ::
  "State \<Rightarrow> EagerMirroredTensorImpl \<Rightarrow> addr \<Rightarrow> addr
   \<Rightarrow> unit Maybe \<times> State \<times> EagerMirroredTensorImpl" where
  "InitEagerBlobObjectAndTensorStorage s this blob storage =
     (if tensor_buffer (blobs s blob) \<noteq> buffer (storages s storage)
      then (Failed CheckFailedError, s, this)
      else (Ok (), s, this\<lparr>eager_blob_object := Some blob, tensor_storage := Some storage\<rparr>))"

subsection \<open>Materializing the shape\<close>

text \<open>
  The spin wait \<open>while (!synced) {}\<close> reads an atomic flag that the execution core sets
  from another thread. The environment is the sequence of values the successive reads
  return; the wait is run with fuel, and \<open>None\<close> means that the flag was still unset when
  the fuel ran out. \<open>WithScopedRelease\<close> runs the wait with the foreign lock released
  and changes nothing in the store.
\<close>

fun spin_wait :: "(nat \<Rightarrow> bool) \<Rightarrow> nat \<Rightarrow> nat \<Rightarrow> unit option" where
  "spin_wait synced 0 k = None"
| "spin_wait synced (Suc fuel) k =
     (if synced k then Some () else spin_wait synced fuel (Suc k))"

definition shape ::
  "(nat \<Rightarrow> bool) \<Rightarrow> nat \<Rightarrow> State \<Rightarrow> EagerMirroredTensorImpl \<Rightarrow> (addr Maybe \<times> State) option" where
  "shape synced fuel s this =
     (case eager_blob_object this of
        None \<Rightarrow> Some (Ok (shape_ptr (meta (tensor_meta this))), s)
      | Some blob \<Rightarrow>
          if is_shape_synced (blobs s blob) then Some (Ok (blob_shape_ptr (blobs s blob)), s)
          else
            (case PhysicalRun
                    (\<lambda>builder. builder_AccessBlobByCallback builder blob ''const'') s of
               (Ok u, s1) \<Rightarrow>
                 (case spin_wait synced fuel 0 of
                    None \<Rightarrow> None
                  | Some u' \<Rightarrow>
                      (let s2 = s1\<lparr>blobs := (blobs s1)
                                  (blob := (blobs s1 blob)\<lparr>is_shape_synced := True\<rparr>)\<rparr>
                       in Some (Ok (blob_shape_ptr (blobs s2 blob)), s2)))
             | (Failed e, s1) \<Rightarrow> Some (Aborted e, s1)
             | (NullDereference, s1) \<Rightarrow> Some (NullDereference, s1)
             | (Aborted e, s1) \<Rightarrow> Some (Aborted e, s1)))"

section \<open>Consistent tensors\<close>

text \<open>
  Modelled from the spec: \<open>MirroredTensor\<close> (\<open>tensor.h\<close>) is outside the given sources.
  It holds one mirrored impl, lazy or eager, and answers \<open>is_lazy\<close>, \<open>requires_grad\<close>,
  \<open>is_leaf\<close>, \<open>dtype\<close>, \<open>device\<close> and \<open>shape\<close> from it.
\<close>

datatype MirroredTensor =
    LazyTensor MirroredTensorImpl
  | EagerTensor EagerMirroredTensorImpl

definition MirroredTensor_is_lazy :: "MirroredTensor \<Rightarrow> bool" where
  "MirroredTensor_is_lazy t = (case t of LazyTensor i \<Rightarrow> True | EagerTensor i \<Rightarrow> False)"

definition MirroredTensor_requires_grad :: "MirroredTensor \<Rightarrow> bool" where
  "MirroredTensor_requires_grad t =
     (case t of LazyTensor i \<Rightarrow> requires_grad i | EagerTensor i \<Rightarrow> requires_grad i)"

definition MirroredTensor_is_leaf :: "MirroredTensor \<Rightarrow> bool" where
  "MirroredTensor_is_leaf t =
     (case t of LazyTensor i \<Rightarrow> is_leaf i | EagerTensor i \<Rightarrow> is_leaf i)"

definition MirroredTensor_meta :: "MirroredTensor \<Rightarrow> MirroredTensorMeta" where
  "MirroredTensor_meta t =
     (case t of LazyTensor i \<Rightarrow> meta (tensor_meta i) | EagerTensor i \<Rightarrow> meta (tensor_meta i))"

definition MirroredTensor_dtype :: "MirroredTensor \<Rightarrow> DataType" where
  "MirroredTensor_dtype t = dtype (MirroredTensor_meta t)"

definition MirroredTensor_device :: "MirroredTensor \<Rightarrow> Device option Maybe" where
  "MirroredTensor_device t = Ok (device (MirroredTensor_meta t))"

definition MirroredTensor_shape ::
  "(nat \<Rightarrow> bool) \<Rightarrow> nat \<Rightarrow> State \<Rightarrow> MirroredTensor \<Rightarrow> (addr Maybe \<times> State) option" where
  "MirroredTensor_shape synced fuel s t =
     (case t of
        LazyTensor i \<Rightarrow> Some (Ok (shape_ptr (meta (tensor_meta i))), s)
      | EagerTensor i \<Rightarrow> shape synced fuel s i)"

record EagerConsistentTensorImpl = TensorImpl +
  consistent_tensor_meta :: ConsistentTensorMeta
  cur_rank_phy_tensor :: "MirroredTensor option"

text \<open>
  What this file reads from the process and from the placement layer, all defined outside
  the given sources: the current machine and device id, \<open>Device::ThreadLocalGetOrNew\<close>,
  \<open>ParallelDesc::GetDevice4CurrentProcessCtx\<close> (the device symbol, empty when the process
  is not in the group, and the value left in \<open>parallel_id\<close>), \<open>GetLogicalShape\<close>,
  \<open>GetPhysicalShape\<close>, and the synced flag of a new blob.
\<close>

record Env =
  env_GetCurrentMachineIdAndDeviceId :: "int \<times> int"
  env_ThreadLocalGetOrNew :: "string \<Rightarrow> int \<Rightarrow> Device Maybe"
  env_GetDevice4CurrentProcessCtx :: "ParallelDesc \<Rightarrow> int \<Rightarrow> (Device option \<times> int) Maybe"
  env_GetLogicalShape :: "Shape \<Rightarrow> ParallelDistribution \<Rightarrow> ParallelDesc \<Rightarrow> Shape Maybe"
  env_GetPhysicalShape ::
    "Shape \<Rightarrow> ParallelDistribution \<Rightarrow> ParallelDesc \<Rightarrow> int \<Rightarrow> Shape Maybe"
  env_blob_shape_synced :: bool

text \<open>\<open>JUST(e)\<close>: the value of \<open>e\<close>, or an immediate return of its failure.\<close>

definition JUST :: "'a Maybe \<Rightarrow> 's \<Rightarrow> ('a \<Rightarrow> 'b Maybe \<times> 's) \<Rightarrow> 'b Maybe \<times> 's" where
  "JUST r s k =
     (case r of
        Ok x \<Rightarrow> k x
      | Failed e \<Rightarrow> (Failed e, s)
      | NullDereference \<Rightarrow> (NullDereference, s)
      | Aborted e \<Rightarrow> (Aborted e, s))"

text \<open>
  The constructor passes \<open>cur_rank_phy_tensor->requires_grad()\<close> and
  \<open>cur_rank_phy_tensor->is_leaf()\<close> to its base class; its own \<open>requires_grad\<close> and
  \<open>is_leaf\<close> parameters are not read.
\<close>

definition EagerConsistentTensorImpl_ctor ::
  "ConsistentTensorMeta \<Rightarrow> bool \<Rightarrow> bool \<Rightarrow> MirroredTensor option
   \<Rightarrow> EagerConsistentTensorImpl Maybe" where
  "EagerConsistentTensorImpl_ctor cmeta rg lf phy =
     (case phy of
        None \<Rightarrow> NullDereference
      | Some t \<Rightarrow>
          Ok \<lparr>autograd_meta = None, requires_grad = MirroredTensor_requires_grad t,
              is_leaf = MirroredTensor_is_leaf t, consistent_tensor_meta = cmeta,
              cur_rank_phy_tensor = Some t\<rparr>)"

text \<open>
  \<open>New\<close> from the physical tensor of the current rank. First the block that compares the
  device of the tensor with the device of this rank for the target \<open>ParallelDesc\<close>.
\<close>

definition check_cur_rank_device :: "Env \<Rightarrow> MirroredTensor \<Rightarrow> ParallelDesc \<Rightarrow> unit Maybe" where
  "check_cur_rank_device E t pd =
     (case env_GetCurrentMachineIdAndDeviceId E of
        (machine_id, dev_id) \<Rightarrow>
          (case env_ThreadLocalGetOrNew E (device_tag pd) dev_id of
             Failed e \<Rightarrow> Failed e
           | NullDereference \<Rightarrow> NullDereference
           | Aborted e \<Rightarrow> Aborted e
           | Ok dev \<Rightarrow>
               (case MirroredTensor_device t of
                  Failed e \<Rightarrow> Failed e
                | NullDereference \<Rightarrow> NullDereference
                | Aborted e \<Rightarrow> Aborted e
                | Ok None \<Rightarrow> NullDereference
                | Ok (Some cur_rank_phy_device) \<Rightarrow>
                    if dev = cur_rank_phy_device then Ok () else Failed CheckFailedError)))"

definition New_from_phy_tensor ::
  "Env \<Rightarrow> (nat \<Rightarrow> bool) \<Rightarrow> nat \<Rightarrow> State \<Rightarrow> MirroredTensor option \<Rightarrow> ParallelDistribution
   \<Rightarrow> ParallelDesc \<Rightarrow> (EagerConsistentTensorImpl Maybe \<times> State) option" where
  "New_from_phy_tensor E synced fuel s phy nd pd =
     (case phy of
        None \<Rightarrow> Some (NullDereference, s)
      | Some t \<Rightarrow>
          if MirroredTensor_is_lazy t then Some (Failed CheckFailedError, s)
          else
            (case check_cur_rank_device E t pd of
               Failed e \<Rightarrow> Some (Failed e, s)
             | NullDereference \<Rightarrow> Some (NullDereference, s)
             | Aborted e \<Rightarrow> Some (Aborted e, s)
             | Ok u \<Rightarrow>
                 (case MirroredTensor_shape synced fuel s t of
                    None \<Rightarrow> None
                  | Some (r, s1) \<Rightarrow>
                      Some (JUST r s1 (\<lambda>phy_shape.
                        JUST (env_GetLogicalShape E (shapes s1 phy_shape) nd pd) s1
                          (\<lambda>logical.
                             let (a, s2) = alloc s1;
                                 s3 = s2\<lparr>shapes := (shapes s2)(a := logical)\<rparr>;
                                 cmeta = \<lparr>c_shape_ptr = a,
                                          c_dtype = MirroredTensor_dtype t,
                                          parallel_distribution = nd,
                                          parallel_desc = pd,
                                          c_is_dynamic = False\<rparr>
                             in (EagerConsistentTensorImpl_ctor cmeta
                                   (MirroredTensor_requires_grad t)
                                   (MirroredTensor_is_leaf t) (Some t), s3)))))))"

definition NewWithPhyTensor ::
  "Env \<Rightarrow> State \<Rightarrow> ConsistentTensorMeta \<Rightarrow> Device option \<Rightarrow> int \<Rightarrow> bool \<Rightarrow> bool
   \<Rightarrow> EagerConsistentTensorImpl Maybe \<times> State" where
  "NewWithPhyTensor E s cmeta dev parallel_id rg lf =
     JUST (env_GetPhysicalShape E (shapes s (c_shape_ptr cmeta)) (parallel_distribution cmeta)
             (parallel_desc cmeta) parallel_id) s
       (\<lambda>cur_rank_phy_shape.
          let (sp, s1) = alloc s;
              s2 = s1\<lparr>shapes := (shapes s1)(sp := cur_rank_phy_shape)\<rparr>;
              (ma, s3) = alloc s2;
              cur_rank_phy_tensor_meta =
                \<lparr>meta_addr = ma, meta = MirroredTensorMeta_new sp (c_dtype cmeta) dev\<rparr>;
              cur_rank_phy_tensor_impl =
                EagerMirroredTensorImpl_new3 cur_rank_phy_tensor_meta rg lf
          in case dev of
               None \<Rightarrow> (NullDereference, s3)
             | Some d \<Rightarrow>
                 (case InitEagerBlobObject (env_blob_shape_synced E) s3
                         cur_rank_phy_tensor_impl (mem_case d) of
                    (r, s4, impl') \<Rightarrow>
                      JUST r s4 (\<lambda>u.
                        let t = EagerTensor impl'
                        in (EagerConsistentTensorImpl_ctor cmeta (MirroredTensor_requires_grad t)
                              (MirroredTensor_is_leaf t) (Some t), s4))))"

definition NewWithoutPhyTensor ::
  "Env \<Rightarrow> State \<Rightarrow> ConsistentTensorMeta \<Rightarrow> Device option \<Rightarrow> int \<Rightarrow> bool \<Rightarrow> bool
   \<Rightarrow> EagerConsistentTensorImpl Maybe \<times> State" where
  "NewWithoutPhyTensor E s cmeta dev parallel_id rg lf =
     (EagerConsistentTensorImpl_ctor cmeta rg lf None, s)"

text \<open>\<open>New\<close> from the consistent meta alone: a dispatch on the presence of the device.\<close>

definition New_from_meta ::
  "Env \<Rightarrow> State \<Rightarrow> ConsistentTensorMeta \<Rightarrow> bool \<Rightarrow> bool
   \<Rightarrow> EagerConsistentTensorImpl Maybe \<times> State" where
  "New_from_meta E s cmeta rg lf =
     JUST (env_GetDevice4CurrentProcessCtx E (parallel_desc cmeta) (- 1)) s
       (\<lambda>(dev, parallel_id).
          (case dev of
             Some d \<Rightarrow> NewWithPhyTensor E s cmeta dev parallel_id rg lf
           | None \<Rightarrow> NewWithoutPhyTensor E s cmeta dev parallel_id rg lf))"

section \<open>Ownership of a tensor storage\<close>

text \<open>
  Modelled from the spec: the destructor of \<open>TensorStorage\<close> and the counting of its
  owners are outside the given sources. The storage is shared; when its last owner lets
  go, the release hook is invoked, and a storage without owners can be neither copied nor
  dropped. \<open>use_count\<close> is the number of \<open>shared_ptr\<close>s that hold the storage.
\<close>

definition TensorStorage_destroy :: "addr \<Rightarrow> State \<Rightarrow> unit Maybe \<times> State" where
  "TensorStorage_destroy st s =
     (case releaser_hook (storages s st) of
        None \<Rightarrow> (Ok (), s)
      | Some hook \<Rightarrow> run_releaser_hook hook (buffer (storages s st)) s)"

record RefCounted =
  rc_store :: State
  use_count :: "addr \<Rightarrow> nat"

datatype OwnerOp = CopyPtr | DropPtr

definition copy_ref :: "addr \<Rightarrow> RefCounted \<Rightarrow> RefCounted" where
  "copy_ref st w =
     (if use_count w st = 0 then w
      else w\<lparr>use_count := (use_count w)(st := Suc (use_count w st))\<rparr>)"

definition drop_ref :: "addr \<Rightarrow> RefCounted \<Rightarrow> RefCounted" where
  "drop_ref st w =
     (if use_count w st = 0 then w
      else if use_count w st = 1
      then w\<lparr>rc_store := snd (TensorStorage_destroy st (rc_store w)),
             use_count := (use_count w)(st := 0)\<rparr>
      else w\<lparr>use_count := (use_count w)(st := use_count w st - 1)\<rparr>)"

fun run_refs :: "addr \<Rightarrow> RefCounted \<Rightarrow> OwnerOp list \<Rightarrow> RefCounted" where
  "run_refs st w [] = w"
| "run_refs st w (CopyPtr # ops) = run_refs st (copy_ref st w) ops"
| "run_refs st w (DropPtr # ops) = run_refs st (drop_ref st w) ops"

section \<open>Shares of a split axis\<close>

text \<open>
  \<open>GetPhysicalShape\<close> and \<open>GetLogicalShape\<close> are outside the given sources; the file
  calls them through the environment. Modelled from the spec: on an axis that the
  distribution splits, the ranks of the group receive shares of the extent that are as
  even as possible. A share policy gives the share of a rank; it is as even as possible
  when the shares of the ranks add up to the extent and each share is the quotient or the
  quotient plus one. \<open>split_extent\<close> is the policy whose first ranks take the extra
  unit.
\<close>

definition split_extent :: "int \<Rightarrow> int \<Rightarrow> int \<Rightarrow> int" where
  "split_extent extent n rank = extent div n + (if rank < extent mod n then 1 else 0)"

definition as_even_as_possible :: "(nat \<Rightarrow> nat \<Rightarrow> nat) \<Rightarrow> nat \<Rightarrow> bool" where
  "as_even_as_possible share n =
     (\<forall>extent. (\<Sum>rank < n. share extent rank) = extent
        \<and> (\<forall>rank < n. share extent rank = extent div n
                      \<or> share extent rank = extent div n + 1))"

section \<open>Example values\<close>

text \<open>
  A store in which every address holds a default object and nothing is queued, a CPU
  device, a process that is rank 0 of machine 0, and simple hash functions.
\<close>

definition State0 :: State where
  "State0 =
     \<lparr>autograd_metas = (\<lambda>a. \<lparr>am_acc_grad = None, am_current_grad = 0, am_retain_grad = False\<rparr>),
      shapes = (\<lambda>a. []),
      blobs = (\<lambda>a. \<lparr>blob_mem_case = 0, blob_shape_ptr = 0, blob_data_type = kInvalidDataType,
                     tensor_buffer = 0,
                     blob_parallel_desc = \<lparr>device_tag = [], machine_device_ids = []\<rparr>,
                     is_shape_synced = False\<rparr>),
      storages = (\<lambda>a. \<lparr>buffer = 0, releaser_hook = None\<rparr>),
      next_addr = 0,
      vm_queue = []\<rparr>"

definition Device0 :: Device where
  "Device0 =
     \<lparr>device_type = ''cpu'', device_id = 0, mem_case = 0,
      parallel_desc_ptr = \<lparr>device_tag = ''cpu'', machine_device_ids = [(0, 0)]\<rparr>\<rparr>"

definition Env0 :: Env where
  "Env0 =
     \<lparr>env_GetCurrentMachineIdAndDeviceId = (0, 0),
      env_ThreadLocalGetOrNew = (\<lambda>tag i. Ok (Device0\<lparr>device_type := tag, device_id := i\<rparr>)),
      env_GetDevice4CurrentProcessCtx =
        (\<lambda>pd parallel_id.
           if (0, 0) \<in> set (machine_device_ids pd) then Ok (Some Device0, 0)
           else Ok (None, parallel_id)),
      env_GetLogicalShape = (\<lambda>shp nd pd. Ok shp),
      env_GetPhysicalShape = (\<lambda>shp nd pd r. Ok shp),
      env_blob_shape_synced = True\<rparr>"

definition Hashers0 :: Hashers where
  "Hashers0 =
     \<lparr>hash_Shape = (\<lambda>shp. word_of_nat (length shp)),
      hash_DataType = (\<lambda>d. case d of kInvalidDataType \<Rightarrow> 0 | kDataType n \<Rightarrow> word_of_nat n),
      hash_Device = (\<lambda>d. word_of_int (device_id d)),
      hash_ParallelDistribution = (\<lambda>nd. word_of_nat (length nd)),
      hash_ParallelDesc = (\<lambda>pd. word_of_nat (length (machine_device_ids pd)))\<rparr>"

definition Meta0 :: MetaPtr where
  "Meta0 =
     \<lparr>meta_addr = 0,
      meta = \<lparr>shape_ptr = 0, dtype = kInvalidDataType, device = Some Device0,
              is_dynamic = False\<rparr>\<rparr>"

definition Impl0 :: EagerMirroredTensorImpl where
  "Impl0 = EagerMirroredTensorImpl_new3 Meta0 False True"

definition Impl1 :: EagerMirroredTensorImpl where
  "Impl1 = Impl0\<lparr>eager_blob_object := Some 1\<rparr>"

definition State1 :: State where
  "State1 = State0\<lparr>storages := (storages State0)(2 := \<lparr>buffer = 9, releaser_hook = None\<rparr>)\<rparr>"

definition State2 :: State where
  "State2 = State0\<lparr>blobs := (blobs State0)(1 := (blobs State0 1)\<lparr>blob_shape_ptr := 4\<rparr>)\<rparr>"

definition State3 :: State where
  "State3 = State0\<lparr>blobs := (blobs State0)(1 := (blobs State0 1)\<lparr>is_shape_synced := True\<rparr>)\<rparr>"

definition Pd0 :: ParallelDesc where
  "Pd0 = \<lparr>device_tag = ''cpu'', machine_device_ids = [(0, 0)]\<rparr>"

definition Pd1 :: ParallelDesc where
  "Pd1 = \<lparr>device_tag = ''gpu'', machine_device_ids = [(0, 0)]\<rparr>"

text \<open>
  Two default metas made one after the other, the impl that the constructor without
  arguments makes, a store whose shape at address 0 is \<open>[2, 4]\<close>, and an environment
  whose \<open>GetLogicalShape\<close> is not the identity.
\<close>

definition DefaultMeta1 :: MetaPtr where
  "DefaultMeta1 = fst (NewDefaultMirroredTensorMeta State0)"

definition DefaultState1 :: State where
  "DefaultState1 = snd (NewDefaultMirroredTensorMeta State0)"

definition DefaultMeta2 :: MetaPtr where
  "DefaultMeta2 = fst (NewDefaultMirroredTensorMeta DefaultState1)"

definition DefaultState2 :: State where
  "DefaultState2 = snd (NewDefaultMirroredTensorMeta DefaultState1)"

definition DefaultImpl :: EagerMirroredTensorImpl where
  "DefaultImpl = fst (EagerMirroredTensorImpl_new0 State0)"

definition State4 :: State where
  "State4 = State0\<lparr>shapes := (shapes State0)(0 := [2, 4])\<rparr>"

definition Env1 :: Env where
  "Env1 = Env0\<lparr>env_GetLogicalShape := (\<lambda>shp nd pd. Ok (rev shp))\<rparr>"

definition Hooked :: RefCounted where
  "Hooked =
     \<lparr>rc_store = State0\<lparr>storages := (storages State0)
          (2 := \<lparr>buffer = 0, releaser_hook = Some (ReleaseTensorHook 1 Pd0)\<rparr>)\<rparr>,
      use_count = (\<lambda>a. if a = 2 then 1 else 0)\<rparr>"

section \<open>The gradient slot\<close>

text \<open>
  Claim C8. Each of \<open>acc_grad\<close>, \<open>current_grad\<close>, \<open>set_acc_grad\<close>, \<open>mut_acc_grad\<close> and
  \<open>set_retain_grad\<close>, called on an impl whose autograd metadata pointer is null, returns a
  check-failed error to the caller and leaves the store as it was; with metadata at
  address \<open>a\<close>, each returns \<open>Ok\<close> and is the corresponding member function of the
  \<open>AutogradMeta\<close> object at \<open>a\<close>.
\<close>

theorem grad_slot_null_or_delegate:
  "(autograd_meta this = None \<longrightarrow>
      acc_grad s this = Failed CheckFailedError
      \<and> current_grad s this = Failed CheckFailedError
      \<and> set_acc_grad s this grad = (Failed CheckFailedError, s)
      \<and> mut_acc_grad s this = Failed CheckFailedError
      \<and> set_retain_grad s this retain = (Failed CheckFailedError, s))
   \<and> (autograd_meta this = Some a \<longrightarrow>
      acc_grad s this = Ok (AutogradMeta_acc_grad (autograd_metas s a))
      \<and> current_grad s this = Ok (AutogradMeta_current_grad (autograd_metas s a))
      \<and> set_acc_grad s this grad =
            (Ok (), s\<lparr>autograd_metas :=
               (autograd_metas s)(a := AutogradMeta_set_acc_grad (autograd_metas s a) grad)\<rparr>)
      \<and> mut_acc_grad s this = Ok (AutogradMeta_mut_acc_grad (autograd_metas s a))
      \<and> set_retain_grad s this retain =
            (Ok (), s\<lparr>autograd_metas :=
               (autograd_metas s)
                 (a := AutogradMeta_set_retain_grad (autograd_metas s a) retain)\<rparr>))"
  by (simp add: acc_grad_def current_grad_def set_acc_grad_def mut_acc_grad_def
      set_retain_grad_def)

theorem grad_slot_null_or_delegate_witness:
  "acc_grad State0 \<lparr>autograd_meta = None, requires_grad = True, is_leaf = True\<rparr>
     = Failed CheckFailedError
   \<and> set_acc_grad State0 \<lparr>autograd_meta = None, requires_grad = True, is_leaf = True\<rparr> (Some 7)
     = (Failed CheckFailedError, State0)
   \<and> fst (set_retain_grad State0
             \<lparr>autograd_meta = Some 3, requires_grad = True, is_leaf = True\<rparr> True)
     = Ok ()
   \<and> am_retain_grad (autograd_metas
        (snd (set_retain_grad State0
                \<lparr>autograd_meta = Some 3, requires_grad = True, is_leaf = True\<rparr> True)) 3)
   \<and> acc_grad
        (snd (set_acc_grad State0
                \<lparr>autograd_meta = Some 3, requires_grad = True, is_leaf = True\<rparr> (Some 7)))
        \<lparr>autograd_meta = Some 3, requires_grad = True, is_leaf = True\<rparr> = Ok (Some 7)"
  using grad_slot_null_or_delegate
          [of "\<lparr>autograd_meta = None, requires_grad = True, is_leaf = True\<rparr>" State0
              "Some 7" True 3]
        grad_slot_null_or_delegate
          [of "\<lparr>autograd_meta = Some 3, requires_grad = True, is_leaf = True\<rparr>" State0
              "Some 7" True 3]
        grad_slot_null_or_delegate
          [of "\<lparr>autograd_meta = Some 3, requires_grad = True, is_leaf = True\<rparr>"
              "snd (set_acc_grad State0
                      \<lparr>autograd_meta = Some 3, requires_grad = True, is_leaf = True\<rparr> (Some 7))"
              "Some 7" True 3]
  by (simp add: AutogradMeta_set_retain_grad_def AutogradMeta_set_acc_grad_def
      AutogradMeta_acc_grad_def)

section \<open>Detach\<close>

text \<open>
  Claim C7. \<open>detach\<close> of a lazy or an eager mirrored impl returns a new impl with
  \<open>requires_grad = false\<close> and \<open>is_leaf = true\<close> that holds the same tensor meta pointer as
  the source; the eager one also holds the same eager blob object and the same tensor
  storage.
\<close>

theorem detach_shares:
  "(\<exists>d. LazyMirroredTensorImpl_detach l = Ok d
        \<and> requires_grad d = False \<and> is_leaf d = True \<and> tensor_meta d = tensor_meta l)
   \<and> (\<exists>d. EagerMirroredTensorImpl_detach e = Ok d
        \<and> requires_grad d = False \<and> is_leaf d = True \<and> tensor_meta d = tensor_meta e
        \<and> eager_blob_object d = eager_blob_object e
        \<and> tensor_storage d = tensor_storage e)"
  by (simp add: LazyMirroredTensorImpl_detach_def EagerMirroredTensorImpl_detach_def
      LazyMirroredTensorImpl_new_def EagerMirroredTensorImpl_new4_def)

section \<open>Equality and hash ignore the dynamic flag\<close>

text \<open>
  Claim C6, as amended. Two mirrored metas whose shapes have equal extents, with the same
  data type and the same non-empty device symbol, compare equal and hash equal; two
  consistent metas with equal shape, data type, distribution and parallel description
  compare equal and hash equal. For all metas, changing the dynamic flags changes neither
  the result of the comparison nor the hash.
\<close>

theorem meta_eq_hash_ignore_is_dynamic:
  "(shapes s (shape_ptr a) = shapes s (shape_ptr b) \<and> dtype a = dtype b
      \<and> device a = Some d \<and> device b = Some d \<longrightarrow>
        MirroredTensorMeta_eq s a b = Ok True
        \<and> MirroredTensorMeta_CalcHashValue H s a = MirroredTensorMeta_CalcHashValue H s b
        \<and> (\<exists>h. MirroredTensorMeta_CalcHashValue H s a = Ok h))
   \<and> (shapes s (c_shape_ptr ca) = shapes s (c_shape_ptr cb) \<and> c_dtype ca = c_dtype cb
      \<and> parallel_distribution ca = parallel_distribution cb
      \<and> parallel_desc ca = parallel_desc cb \<longrightarrow>
        ConsistentTensorMeta_eq s ca cb
        \<and> ConsistentTensorMeta_CalcHashValue H s ca = ConsistentTensorMeta_CalcHashValue H s cb)
   \<and> MirroredTensorMeta_eq s (a\<lparr>is_dynamic := x\<rparr>) (b\<lparr>is_dynamic := y\<rparr>)
        = MirroredTensorMeta_eq s a b
   \<and> MirroredTensorMeta_CalcHashValue H s (a\<lparr>is_dynamic := x\<rparr>)
        = MirroredTensorMeta_CalcHashValue H s a
   \<and> ConsistentTensorMeta_eq s (ca\<lparr>c_is_dynamic := x\<rparr>) (cb\<lparr>c_is_dynamic := y\<rparr>)
        = ConsistentTensorMeta_eq s ca cb
   \<and> ConsistentTensorMeta_CalcHashValue H s (ca\<lparr>c_is_dynamic := x\<rparr>)
        = ConsistentTensorMeta_CalcHashValue H s ca"
  by (simp add: MirroredTensorMeta_eq_def MirroredTensorMeta_CalcHashValue_def
      ConsistentTensorMeta_eq_def ConsistentTensorMeta_CalcHashValue_def
      split: option.split)

theorem meta_eq_hash_ignore_is_dynamic_witness:
  "MirroredTensorMeta_eq State0
      \<lparr>shape_ptr = 1, dtype = kDataType 2, device = Some Device0, is_dynamic = True\<rparr>
      \<lparr>shape_ptr = 5, dtype = kDataType 2, device = Some Device0, is_dynamic = False\<rparr> = Ok True
   \<and> MirroredTensorMeta_CalcHashValue Hashers0 State0
      \<lparr>shape_ptr = 1, dtype = kDataType 2, device = Some Device0, is_dynamic = True\<rparr>
     = MirroredTensorMeta_CalcHashValue Hashers0 State0
      \<lparr>shape_ptr = 5, dtype = kDataType 2, device = Some Device0, is_dynamic = False\<rparr>
   \<and> ConsistentTensorMeta_eq State0
      \<lparr>c_shape_ptr = 1, c_dtype = kDataType 2, parallel_distribution = [Split 0],
        parallel_desc = Pd0, c_is_dynamic = True\<rparr>
      \<lparr>c_shape_ptr = 5, c_dtype = kDataType 2, parallel_distribution = [Split 0],
        parallel_desc = Pd0, c_is_dynamic = False\<rparr>
   \<and> ConsistentTensorMeta_CalcHashValue Hashers0 State0
      \<lparr>c_shape_ptr = 1, c_dtype = kDataType 2, parallel_distribution = [Split 0],
        parallel_desc = Pd0, c_is_dynamic = True\<rparr>
     = ConsistentTensorMeta_CalcHashValue Hashers0 State0
      \<lparr>c_shape_ptr = 5, c_dtype = kDataType 2, parallel_distribution = [Split 0],
        parallel_desc = Pd0, c_is_dynamic = False\<rparr>"
  using meta_eq_hash_ignore_is_dynamic
    [of State0
        "\<lparr>shape_ptr = 1, dtype = kDataType 2, device = Some Device0, is_dynamic = True\<rparr>"
        "\<lparr>shape_ptr = 5, dtype = kDataType 2, device = Some Device0, is_dynamic = False\<rparr>"
        Device0 Hashers0
        "\<lparr>c_shape_ptr = 1, c_dtype = kDataType 2, parallel_distribution = [Split 0],
          parallel_desc = Pd0, c_is_dynamic = True\<rparr>"
        "\<lparr>c_shape_ptr = 5, c_dtype = kDataType 2, parallel_distribution = [Split 0],
          parallel_desc = Pd0, c_is_dynamic = False\<rparr>"]
  by (simp add: State0_def)

text \<open>
  The claim as first stated fails on metas whose device symbol is empty: two metas from
  \<open>NewDefaultMirroredTensorMeta\<close> have shapes of equal extents, the same data type and
  the same (empty) device symbol, and both the comparison and the hash dereference that
  symbol.
\<close>

theorem default_meta_eq_hash_counterexample:
  "shapes DefaultState2 (shape_ptr (meta DefaultMeta1))
     = shapes DefaultState2 (shape_ptr (meta DefaultMeta2))
   \<and> dtype (meta DefaultMeta1) = dtype (meta DefaultMeta2)
   \<and> device (meta DefaultMeta1) = device (meta DefaultMeta2)
   \<and> MirroredTensorMeta_eq DefaultState2 (meta DefaultMeta1) (meta DefaultMeta2)
       = NullDereference
   \<and> MirroredTensorMeta_CalcHashValue Hashers0 DefaultState2 (meta DefaultMeta1)
       = NullDereference"
  by (simp add: DefaultMeta1_def DefaultMeta2_def DefaultState1_def DefaultState2_def
      NewDefaultMirroredTensorMeta_def alloc_def MirroredTensorMeta_new_def State0_def
      MirroredTensorMeta_eq_def MirroredTensorMeta_CalcHashValue_def Let_def)

section \<open>Constructing a consistent tensor\<close>

text \<open>
  Claim C4. The four-argument constructor of \<open>EagerConsistentTensorImpl\<close> dereferences
  \<open>cur_rank_phy_tensor\<close> whatever it is: on an empty pointer it is a null dereference; on a
  tensor it takes \<open>requires_grad\<close> and \<open>is_leaf\<close> from the tensor and ignores its own two
  parameters. It yields an impl exactly when the pointer is not empty, and
  \<open>NewWithoutPhyTensor\<close>, which passes the empty pointer, is a null dereference.
\<close>

theorem ctor_needs_phy_tensor:
  "EagerConsistentTensorImpl_ctor cmeta rg lf None = NullDereference
   \<and> EagerConsistentTensorImpl_ctor cmeta rg lf (Some t) =
       Ok \<lparr>autograd_meta = None, requires_grad = MirroredTensor_requires_grad t,
           is_leaf = MirroredTensor_is_leaf t, consistent_tensor_meta = cmeta,
           cur_rank_phy_tensor = Some t\<rparr>
   \<and> EagerConsistentTensorImpl_ctor cmeta rg lf (Some t) =
       EagerConsistentTensorImpl_ctor cmeta rg' lf' (Some t)
   \<and> ((\<exists>impl. EagerConsistentTensorImpl_ctor cmeta rg lf phy = Ok impl) = (\<exists>t'. phy = Some t'))
   \<and> NewWithoutPhyTensor E s cmeta dev parallel_id rg lf = (NullDereference, s)"
  by (cases phy) (simp_all add: EagerConsistentTensorImpl_ctor_def NewWithoutPhyTensor_def)

lemma New_from_meta_absent_rank:
  assumes "env_GetDevice4CurrentProcessCtx E (parallel_desc cmeta) (- 1) = Ok (None, parallel_id)"
  shows "New_from_meta E s cmeta rg lf = (NullDereference, s)"
  using assms
  by (simp add: New_from_meta_def JUST_def NewWithoutPhyTensor_def
      EagerConsistentTensorImpl_ctor_def)

lemma New_from_meta_present_rank:
  "\<exists>impl s'. New_from_meta Env0 State0
     \<lparr>c_shape_ptr = 0, c_dtype = kDataType 2, parallel_distribution = [Broadcast],
      parallel_desc = Pd0, c_is_dynamic = False\<rparr> True True = (Ok impl, s')
     \<and> cur_rank_phy_tensor impl \<noteq> None"
  by (simp add: New_from_meta_def Env0_def JUST_def NewWithPhyTensor_def
      EagerConsistentTensorImpl_ctor_def alloc_def Device0_def InitEagerBlobObject_def
      EagerMirroredTensorImpl_new3_def MirroredTensorMeta_new_def set_eager_blob_object_def
      UpdateTensorStorage_def State0_def Pd0_def Let_def)

text \<open>
  Claim C3, at a process that is not in the group. The process is rank 0 of machine 0 and
  the \<open>ParallelDesc\<close> holds device 0 of machine 1 only, so
  \<open>GetDevice4CurrentProcessCtx\<close> returns the empty device symbol. \<open>New\<close> then dispatches
  to \<open>NewWithoutPhyTensor\<close>, whose constructor call dereferences the empty tensor
  pointer: the result is a null dereference, not an impl without a physical tensor.
\<close>

theorem New_from_meta_absent_rank_null_dereference:
  "New_from_meta Env0 State0
     \<lparr>c_shape_ptr = 0, c_dtype = kDataType 2, parallel_distribution = [Broadcast],
      parallel_desc = \<lparr>device_tag = ''cpu'', machine_device_ids = [(1, 0)]\<rparr>,
      c_is_dynamic = False\<rparr> True True
   = (NullDereference, State0)"
  by (simp add: New_from_meta_def Env0_def JUST_def NewWithoutPhyTensor_def
      EagerConsistentTensorImpl_ctor_def)

lemma check_cur_rank_device_mismatch:
  assumes "env_ThreadLocalGetOrNew E (device_tag pd)
             (snd (env_GetCurrentMachineIdAndDeviceId E)) = Ok dev"
    and "device (MirroredTensor_meta t) = Some d" and "dev \<noteq> d"
  shows "check_cur_rank_device E t pd = Failed CheckFailedError"
  using assms
  by (cases "env_GetCurrentMachineIdAndDeviceId E")
     (simp add: check_cur_rank_device_def MirroredTensor_device_def)

lemma check_cur_rank_device_Ok:
  assumes "check_cur_rank_device E t pd = Ok u"
  shows "\<exists>d. device (MirroredTensor_meta t) = Some d
           \<and> env_ThreadLocalGetOrNew E (device_tag pd)
                (snd (env_GetCurrentMachineIdAndDeviceId E)) = Ok d"
  using assms
  by (cases "env_GetCurrentMachineIdAndDeviceId E")
     (auto simp: check_cur_rank_device_def MirroredTensor_device_def
      split: Maybe.splits option.splits if_splits)

lemma JUST_Ok: "JUST r s k = (Ok x, s') \<Longrightarrow> \<exists>y. r = Ok y \<and> k y = (Ok x, s')"
  by (cases r) (simp_all add: JUST_def)

text \<open>
  Claim C5, as amended. \<open>New\<close> from a physical tensor returns a check-failed error, with
  the store untouched, when the tensor is lazy, and when the tensor is eager and has a
  device (its device symbol is not empty) that is not the device that \<open>Device::ThreadLocalGetOrNew\<close> gives for the device tag of the
  \<open>ParallelDesc\<close> and the device id of the process. When \<open>New\<close> returns an impl, the
  tensor is not lazy, the two devices are the same, the shape of the consistent meta is
  what \<open>GetLogicalShape\<close> returns for the shape of the physical tensor under the given
  distribution and \<open>ParallelDesc\<close>, and the impl holds that tensor.
\<close>

theorem New_from_phy_tensor_checks:
  "(MirroredTensor_is_lazy t \<longrightarrow>
      New_from_phy_tensor E synced fuel s (Some t) nd pd = Some (Failed CheckFailedError, s))
   \<and> (\<not> MirroredTensor_is_lazy t
       \<and> env_ThreadLocalGetOrNew E (device_tag pd)
            (snd (env_GetCurrentMachineIdAndDeviceId E)) = Ok dev
       \<and> device (MirroredTensor_meta t) = Some d \<and> dev \<noteq> d \<longrightarrow>
      New_from_phy_tensor E synced fuel s (Some t) nd pd = Some (Failed CheckFailedError, s))
   \<and> (New_from_phy_tensor E synced fuel s (Some t) nd pd = Some (Ok impl, s') \<longrightarrow>
      \<not> MirroredTensor_is_lazy t
      \<and> (\<exists>d'. device (MirroredTensor_meta t) = Some d'
            \<and> env_ThreadLocalGetOrNew E (device_tag pd)
                 (snd (env_GetCurrentMachineIdAndDeviceId E)) = Ok d')
      \<and> (\<exists>p s1. MirroredTensor_shape synced fuel s t = Some (Ok p, s1)
            \<and> env_GetLogicalShape E (shapes s1 p) nd pd
                = Ok (shapes s' (c_shape_ptr (consistent_tensor_meta impl))))
      \<and> parallel_distribution (consistent_tensor_meta impl) = nd
      \<and> parallel_desc (consistent_tensor_meta impl) = pd
      \<and> c_dtype (consistent_tensor_meta impl) = MirroredTensor_dtype t
      \<and> cur_rank_phy_tensor impl = Some t)"
proof (intro conjI impI)
  assume "MirroredTensor_is_lazy t"
  then show "New_from_phy_tensor E synced fuel s (Some t) nd pd
               = Some (Failed CheckFailedError, s)"
    by (simp add: New_from_phy_tensor_def)
next
  assume "\<not> MirroredTensor_is_lazy t
       \<and> env_ThreadLocalGetOrNew E (device_tag pd)
            (snd (env_GetCurrentMachineIdAndDeviceId E)) = Ok dev
       \<and> device (MirroredTensor_meta t) = Some d \<and> dev \<noteq> d"
  then show "New_from_phy_tensor E synced fuel s (Some t) nd pd
               = Some (Failed CheckFailedError, s)"
    by (simp add: New_from_phy_tensor_def check_cur_rank_device_mismatch)
next
  assume a: "New_from_phy_tensor E synced fuel s (Some t) nd pd = Some (Ok impl, s')"
  show nl: "\<not> MirroredTensor_is_lazy t"
    using a by (auto simp: New_from_phy_tensor_def)
  from a nl obtain u where c: "check_cur_rank_device E t pd = Ok u"
    by (cases "check_cur_rank_device E t pd") (auto simp: New_from_phy_tensor_def)
  from check_cur_rank_device_Ok [OF c]
  show "\<exists>d'. device (MirroredTensor_meta t) = Some d'
            \<and> env_ThreadLocalGetOrNew E (device_tag pd)
                 (snd (env_GetCurrentMachineIdAndDeviceId E)) = Ok d'" .
  from a nl c obtain r s1 where sh: "MirroredTensor_shape synced fuel s t = Some (r, s1)"
    and j: "JUST r s1 (\<lambda>phy_shape.
              JUST (env_GetLogicalShape E (shapes s1 phy_shape) nd pd) s1
                (\<lambda>logical.
                   let (a, s2) = alloc s1;
                       s3 = s2\<lparr>shapes := (shapes s2)(a := logical)\<rparr>;
                       cmeta = \<lparr>c_shape_ptr = a,
                                c_dtype = MirroredTensor_dtype t,
                                parallel_distribution = nd,
                                parallel_desc = pd,
                                c_is_dynamic = False\<rparr>
                   in (EagerConsistentTensorImpl_ctor cmeta
                         (MirroredTensor_requires_grad t)
                         (MirroredTensor_is_leaf t) (Some t), s3))) = (Ok impl, s')"
    by (auto simp: New_from_phy_tensor_def split: option.splits)
  from JUST_Ok [OF j] obtain p where r: "r = Ok p"
    and j2: "JUST (env_GetLogicalShape E (shapes s1 p) nd pd) s1
                (\<lambda>logical.
                   let (a, s2) = alloc s1;
                       s3 = s2\<lparr>shapes := (shapes s2)(a := logical)\<rparr>;
                       cmeta = \<lparr>c_shape_ptr = a,
                                c_dtype = MirroredTensor_dtype t,
                                parallel_distribution = nd,
                                parallel_desc = pd,
                                c_is_dynamic = False\<rparr>
                   in (EagerConsistentTensorImpl_ctor cmeta
                         (MirroredTensor_requires_grad t)
                         (MirroredTensor_is_leaf t) (Some t), s3)) = (Ok impl, s')"
    by auto
  from JUST_Ok [OF j2] obtain logical
    where l: "env_GetLogicalShape E (shapes s1 p) nd pd = Ok logical"
    and k: "(let (a, s2) = alloc s1;
                 s3 = s2\<lparr>shapes := (shapes s2)(a := logical)\<rparr>;
                 cmeta = \<lparr>c_shape_ptr = a,
                          c_dtype = MirroredTensor_dtype t,
                          parallel_distribution = nd,
                          parallel_desc = pd,
                          c_is_dynamic = False\<rparr>
             in (EagerConsistentTensorImpl_ctor cmeta
                   (MirroredTensor_requires_grad t)
                   (MirroredTensor_is_leaf t) (Some t), s3)) = (Ok impl, s')"
    by auto
  from k have impl: "consistent_tensor_meta impl =
        \<lparr>c_shape_ptr = next_addr s1, c_dtype = MirroredTensor_dtype t,
         parallel_distribution = nd, parallel_desc = pd, c_is_dynamic = False\<rparr>"
    and ph: "cur_rank_phy_tensor impl = Some t"
    and s': "shapes s' (next_addr s1) = logical"
    by (auto simp: alloc_def Let_def EagerConsistentTensorImpl_ctor_def)
  show "\<exists>p s1. MirroredTensor_shape synced fuel s t = Some (Ok p, s1)
            \<and> env_GetLogicalShape E (shapes s1 p) nd pd
                = Ok (shapes s' (c_shape_ptr (consistent_tensor_meta impl)))"
    using sh r l impl s' by auto
  show "parallel_distribution (consistent_tensor_meta impl) = nd" using impl by simp
  show "parallel_desc (consistent_tensor_meta impl) = pd" using impl by simp
  show "c_dtype (consistent_tensor_meta impl) = MirroredTensor_dtype t" using impl by simp
  show "cur_rank_phy_tensor impl = Some t" by (rule ph)
qed

theorem New_from_phy_tensor_witness:
  "New_from_phy_tensor Env1 (\<lambda>k. False) 0 State4
      (Some (LazyTensor (LazyMirroredTensorImpl_new Meta0 False True))) [Split 0] Pd0
     = Some (Failed CheckFailedError, State4)
   \<and> New_from_phy_tensor Env1 (\<lambda>k. False) 0 State4 (Some (EagerTensor Impl0)) [Split 0] Pd1
     = Some (Failed CheckFailedError, State4)
   \<and> (\<exists>impl s'. New_from_phy_tensor Env1 (\<lambda>k. False) 0 State4 (Some (EagerTensor Impl0))
                     [Split 0] Pd0 = Some (Ok impl, s')
         \<and> cur_rank_phy_tensor impl = Some (EagerTensor Impl0)
         \<and> parallel_distribution (consistent_tensor_meta impl) = [Split 0]
         \<and> parallel_desc (consistent_tensor_meta impl) = Pd0
         \<and> shapes State4 (shape_ptr (meta (tensor_meta Impl0))) = [2, 4]
         \<and> shapes s' (c_shape_ptr (consistent_tensor_meta impl)) = [4, 2])"
proof -
  have a: "MirroredTensor_is_lazy (LazyTensor (LazyMirroredTensorImpl_new Meta0 False True))"
    by (simp add: MirroredTensor_is_lazy_def)
  have tl: "env_ThreadLocalGetOrNew Env1
              = (\<lambda>tag i. Ok (Device0\<lparr>device_type := tag, device_id := i\<rparr>))"
    and ids: "env_GetCurrentMachineIdAndDeviceId Env1 = (0, 0)"
    and gl: "env_GetLogicalShape Env1 = (\<lambda>shp nd pd. Ok (rev shp))"
    by (simp_all add: Env1_def Env0_def)
  have b: "\<not> MirroredTensor_is_lazy (EagerTensor Impl0)
       \<and> env_ThreadLocalGetOrNew Env1 (device_tag Pd1)
            (snd (env_GetCurrentMachineIdAndDeviceId Env1))
          = Ok (Device0\<lparr>device_type := ''gpu''\<rparr>)
       \<and> device (MirroredTensor_meta (EagerTensor Impl0)) = Some Device0
       \<and> Device0\<lparr>device_type := ''gpu''\<rparr> \<noteq> Device0"
    by (simp add: MirroredTensor_is_lazy_def tl ids Pd1_def Device0_def MirroredTensor_meta_def
        Impl0_def EagerMirroredTensorImpl_new3_def Meta0_def)
  have sh: "MirroredTensor_shape (\<lambda>k. False) 0 State4 (EagerTensor Impl0)
              = Some (Ok 0, State4)"
    by (simp add: MirroredTensor_shape_def shape_def Impl0_def EagerMirroredTensorImpl_new3_def
        Meta0_def)
  have ck: "check_cur_rank_device Env1 (EagerTensor Impl0) Pd0 = Ok ()"
    by (simp add: check_cur_rank_device_def tl ids Pd0_def MirroredTensor_device_def
        MirroredTensor_meta_def Impl0_def EagerMirroredTensorImpl_new3_def Meta0_def Device0_def)
  have s0: "shapes State4 0 = [2, 4]" by (simp add: State4_def)
  have m0: "shape_ptr (meta (tensor_meta Impl0)) = 0"
    by (simp add: Impl0_def EagerMirroredTensorImpl_new3_def Meta0_def)
  obtain impl s'
    where c: "New_from_phy_tensor Env1 (\<lambda>k. False) 0 State4 (Some (EagerTensor Impl0))
                [Split 0] Pd0 = Some (Ok impl, s')"
    by (simp add: New_from_phy_tensor_def MirroredTensor_is_lazy_def ck sh JUST_def gl
        alloc_def EagerConsistentTensorImpl_ctor_def Let_def)
  note w1 = New_from_phy_tensor_checks [THEN conjunct1, THEN mp, OF a]
  note w2 = New_from_phy_tensor_checks [THEN conjunct2, THEN conjunct1, THEN mp, OF b]
  note w3 = New_from_phy_tensor_checks [THEN conjunct2, THEN conjunct2, THEN mp, OF c]
  from w3 sh have "env_GetLogicalShape Env1 (shapes State4 0) [Split 0] Pd0
      = Ok (shapes s' (c_shape_ptr (consistent_tensor_meta impl)))" by auto
  then have l: "shapes s' (c_shape_ptr (consistent_tensor_meta impl)) = [4, 2]"
    by (simp add: gl s0)
  from c w3 l s0 m0
  have e: "\<exists>impl s'. New_from_phy_tensor Env1 (\<lambda>k. False) 0 State4 (Some (EagerTensor Impl0))
                     [Split 0] Pd0 = Some (Ok impl, s')
         \<and> cur_rank_phy_tensor impl = Some (EagerTensor Impl0)
         \<and> parallel_distribution (consistent_tensor_meta impl) = [Split 0]
         \<and> parallel_desc (consistent_tensor_meta impl) = Pd0
         \<and> shapes State4 (shape_ptr (meta (tensor_meta Impl0))) = [2, 4]
         \<and> shapes s' (c_shape_ptr (consistent_tensor_meta impl)) = [4, 2]" by auto
  show ?thesis by (intro conjI) (rule w1, rule w2, rule e)
qed

text \<open>
  The claim as first stated fails on an eager tensor whose device symbol is empty, such
  as the one over the impl that the constructor without arguments makes: the tensor is
  not lazy and its (empty) device symbol is not the device of the rank, yet the
  comparison dereferences it, so \<open>New\<close> ends in a null dereference and not in a typed
  error.
\<close>

theorem New_from_phy_tensor_empty_device_counterexample:
  "\<not> MirroredTensor_is_lazy (EagerTensor DefaultImpl)
   \<and> device (MirroredTensor_meta (EagerTensor DefaultImpl)) = None
   \<and> env_ThreadLocalGetOrNew Env0 (device_tag Pd0)
        (snd (env_GetCurrentMachineIdAndDeviceId Env0)) = Ok Device0
   \<and> New_from_phy_tensor Env0 (\<lambda>k. False) 0 DefaultState1
        (Some (EagerTensor DefaultImpl)) [Broadcast] Pd0
       = Some (NullDereference, DefaultState1)"
proof -
  have i: "DefaultImpl = EagerMirroredTensorImpl_new3 DefaultMeta1 False False"
    by (simp add: DefaultImpl_def EagerMirroredTensorImpl_new0_def DefaultMeta1_def
        split: prod.split)
  have d: "device (meta DefaultMeta1) = None"
    by (simp add: DefaultMeta1_def NewDefaultMirroredTensorMeta_def alloc_def
        MirroredTensorMeta_new_def Let_def)
  have a: "\<not> MirroredTensor_is_lazy (EagerTensor DefaultImpl)"
    by (simp add: MirroredTensor_is_lazy_def)
  have b: "device (MirroredTensor_meta (EagerTensor DefaultImpl)) = None"
    by (simp add: MirroredTensor_meta_def i EagerMirroredTensorImpl_new3_def d)
  have c: "env_ThreadLocalGetOrNew Env0 (device_tag Pd0)
        (snd (env_GetCurrentMachineIdAndDeviceId Env0)) = Ok Device0"
    by (simp add: Env0_def Pd0_def Device0_def)
  have ck: "check_cur_rank_device Env0 (EagerTensor DefaultImpl) Pd0 = NullDereference"
    using b c
    by (cases "env_GetCurrentMachineIdAndDeviceId Env0")
       (simp add: check_cur_rank_device_def MirroredTensor_device_def)
  have e: "New_from_phy_tensor Env0 (\<lambda>k. False) 0 DefaultState1
        (Some (EagerTensor DefaultImpl)) [Broadcast] Pd0
       = Some (NullDereference, DefaultState1)"
    by (simp add: New_from_phy_tensor_def a ck)
  show ?thesis by (intro conjI) (rule a, rule b, rule c, rule e)
qed

section \<open>Binding of blob and storage\<close>

lemma UpdateTensorStorage_Ok:
  assumes "UpdateTensorStorage s this = (Ok u, s', this')"
  shows "\<exists>blob d. eager_blob_object this = Some blob
           \<and> device (meta (tensor_meta this)) = Some d
           \<and> this' = this\<lparr>tensor_storage := Some (next_addr s)\<rparr>
           \<and> s' = s\<lparr>next_addr := Suc (next_addr s),
                     storages := (storages s)
                       (next_addr s := \<lparr>buffer = tensor_buffer (blobs s blob),
                          releaser_hook =
                            Some (ReleaseTensorHook blob (parallel_desc_ptr d))\<rparr>)\<rparr>"
  using assms
  by (auto simp: UpdateTensorStorage_def alloc_def Let_def split: option.splits)

lemma set_eager_blob_object_binding:
  assumes "tensor_storage this = None"
    and "set_eager_blob_object s this blob = (r, s', this')"
    and "eager_blob_object this' = Some b" and "tensor_storage this' = Some st"
  shows "tensor_buffer (blobs s' b) = buffer (storages s' st)"
  using assms
  by (auto simp: set_eager_blob_object_def UpdateTensorStorage_def alloc_def Let_def
      split: if_splits option.splits)

text \<open>
  Claim C9. When \<open>InitEagerBlobObjectAndTensorStorage\<close> succeeds, the impl holds the blob
  and the storage, and the tensor buffer of the blob is the buffer of the storage; when
  the two buffers differ it fails and changes nothing. When \<open>set_eager_blob_object\<close>
  succeeds, the shape pointer and the data type of the blob are those of the tensor meta,
  and the impl holds the blob and a storage whose buffer is the tensor buffer of the blob;
  when the shape pointer or the data type differs it fails before any storage is made:
  the store is unchanged and only the blob pointer of the impl has been assigned. On an
  impl that had no storage, \<open>set_eager_blob_object\<close> therefore never leaves a blob and a
  storage with different buffers, whatever its outcome.
\<close>

theorem blob_storage_binding:
  "(InitEagerBlobObjectAndTensorStorage s this blob storage = (Ok (), s', this') \<longrightarrow>
      eager_blob_object this' = Some blob \<and> tensor_storage this' = Some storage
      \<and> tensor_buffer (blobs s' blob) = buffer (storages s' storage))
   \<and> (tensor_buffer (blobs s blob) \<noteq> buffer (storages s storage) \<longrightarrow>
      InitEagerBlobObjectAndTensorStorage s this blob storage
        = (Failed CheckFailedError, s, this))
   \<and> (set_eager_blob_object s this blob = (Ok (), s', this') \<longrightarrow>
      blob_shape_ptr (blobs s blob) = shape_ptr (meta (tensor_meta this))
      \<and> blob_data_type (blobs s blob) = dtype (meta (tensor_meta this))
      \<and> eager_blob_object this' = Some blob
      \<and> (\<exists>st. tensor_storage this' = Some st
             \<and> buffer (storages s' st) = tensor_buffer (blobs s' blob)))
   \<and> (blob_shape_ptr (blobs s blob) \<noteq> shape_ptr (meta (tensor_meta this))
       \<or> blob_data_type (blobs s blob) \<noteq> dtype (meta (tensor_meta this)) \<longrightarrow>
      set_eager_blob_object s this blob
        = (Failed CheckFailedError, s, this\<lparr>eager_blob_object := Some blob\<rparr>))
   \<and> (tensor_storage this = None \<and> set_eager_blob_object s this blob = (r, s2, this2)
       \<and> eager_blob_object this2 = Some b \<and> tensor_storage this2 = Some st \<longrightarrow>
      tensor_buffer (blobs s2 b) = buffer (storages s2 st))"
proof (intro conjI impI)
  assume "tensor_storage this = None \<and> set_eager_blob_object s this blob = (r, s2, this2)
       \<and> eager_blob_object this2 = Some b \<and> tensor_storage this2 = Some st"
  then show "tensor_buffer (blobs s2 b) = buffer (storages s2 st)"
    using set_eager_blob_object_binding [of this s blob r s2 this2 b st] by blast
next
  assume a: "set_eager_blob_object s this blob = (Ok (), s', this')"
  show "blob_shape_ptr (blobs s blob) = shape_ptr (meta (tensor_meta this))"
    using a by (auto simp: set_eager_blob_object_def Let_def split: if_splits)
  show "blob_data_type (blobs s blob) = dtype (meta (tensor_meta this))"
    using a by (auto simp: set_eager_blob_object_def Let_def split: if_splits)
  from a
  have u: "UpdateTensorStorage s (this\<lparr>eager_blob_object := Some blob\<rparr>) = (Ok (), s', this')"
    by (auto simp: set_eager_blob_object_def Let_def split: if_splits)
  from UpdateTensorStorage_Ok [OF u]
  show "eager_blob_object this' = Some blob" by auto
  from UpdateTensorStorage_Ok [OF u]
  show "\<exists>st. tensor_storage this' = Some st
             \<and> buffer (storages s' st) = tensor_buffer (blobs s' blob)" by auto
qed (auto simp: InitEagerBlobObjectAndTensorStorage_def set_eager_blob_object_def Let_def
      split: if_splits)

theorem blob_storage_binding_witness:
  "InitEagerBlobObjectAndTensorStorage State0 Impl0 1 2
     = (Ok (), State0, Impl0\<lparr>eager_blob_object := Some 1, tensor_storage := Some 2\<rparr>)
   \<and> tensor_buffer (blobs State0 1) = buffer (storages State0 2)
   \<and> InitEagerBlobObjectAndTensorStorage State1 Impl0 1 2
       = (Failed CheckFailedError, State1, Impl0)
   \<and> (\<exists>s' this' st. set_eager_blob_object State0 Impl0 1 = (Ok (), s', this')
          \<and> tensor_storage this' = Some st
          \<and> buffer (storages s' st) = tensor_buffer (blobs s' 1))
   \<and> set_eager_blob_object State2 Impl0 1
     = (Failed CheckFailedError, State2, Impl0\<lparr>eager_blob_object := Some 1\<rparr>)"
proof -
  have a: "InitEagerBlobObjectAndTensorStorage State0 Impl0 1 2
     = (Ok (), State0, Impl0\<lparr>eager_blob_object := Some 1, tensor_storage := Some 2\<rparr>)"
    by (simp add: InitEagerBlobObjectAndTensorStorage_def State0_def)
  have b: "tensor_buffer (blobs State1 1) \<noteq> buffer (storages State1 2)"
    by (simp add: State0_def State1_def)
  obtain s' this' where c: "set_eager_blob_object State0 Impl0 1 = (Ok (), s', this')"
    by (simp add: set_eager_blob_object_def State0_def Meta0_def Impl0_def
        EagerMirroredTensorImpl_new3_def UpdateTensorStorage_def alloc_def Let_def Device0_def)
  have d: "blob_shape_ptr (blobs State2 1) \<noteq> shape_ptr (meta (tensor_meta Impl0))"
    by (simp add: State0_def State2_def Meta0_def Impl0_def EagerMirroredTensorImpl_new3_def)
  note w1 = blob_storage_binding [THEN conjunct1, THEN mp, OF a]
  note w2 = blob_storage_binding [THEN conjunct2, THEN conjunct1, THEN mp, OF b]
  note w3 = blob_storage_binding [THEN conjunct2, THEN conjunct2, THEN conjunct1, THEN mp, OF c]
  note w4 = blob_storage_binding [THEN conjunct2, THEN conjunct2, THEN conjunct2,
      THEN conjunct1, THEN mp, OF disjI1, OF d]
  from w3 obtain st where st: "tensor_storage this' = Some st"
    and eb: "eager_blob_object this' = Some 1" by blast
  have ns: "tensor_storage Impl0 = None"
    by (simp add: Impl0_def EagerMirroredTensorImpl_new3_def)
  note w5 = blob_storage_binding [THEN conjunct2, THEN conjunct2, THEN conjunct2,
      THEN conjunct2, THEN mp, OF conjI, OF ns, OF conjI, OF c, OF conjI, OF eb st]
  from c st w5
  have e: "\<exists>s' this' st. set_eager_blob_object State0 Impl0 1 = (Ok (), s', this')
          \<and> tensor_storage this' = Some st
          \<and> buffer (storages s' st) = tensor_buffer (blobs s' 1)" by auto
  from w1 have f: "tensor_buffer (blobs State0 1) = buffer (storages State0 2)" by blast
  show ?thesis
    by (intro conjI) (rule a, rule f, rule w2, rule e, rule w4)
qed

section \<open>Materializing the shape once\<close>

lemma spin_wait_Some:
  "(spin_wait synced fuel k = Some ()) = (\<exists>j. k \<le> j \<and> j < k + fuel \<and> synced j)"
proof (induction fuel arbitrary: k)
  case 0
  then show ?case by simp
next
  case (Suc fuel)
  show ?case
  proof (cases "synced k")
    case True
    then show ?thesis by auto
  next
    case False
    have "(\<exists>j. Suc k \<le> j \<and> j < Suc k + fuel \<and> synced j)
          = (\<exists>j. k \<le> j \<and> j < k + Suc fuel \<and> synced j)"
      using False by (metis Suc_leD Suc_le_eq add_Suc add_Suc_right le_neq_implies_less)
    with False Suc.IH [of "Suc k"] show ?thesis by simp
  qed
qed

lemma PhysicalRun_AccessBlobByCallback:
  "PhysicalRun (\<lambda>builder. builder_AccessBlobByCallback builder blob m) s
     = (Ok (), s\<lparr>vm_queue := vm_queue s @ [AccessBlobByCallback blob m]\<rparr>)"
  by (simp add: PhysicalRun_def builder_AccessBlobByCallback_def)

lemma shape_cases:
  "shape synced fuel s this =
     (case eager_blob_object this of
        None \<Rightarrow> Some (Ok (shape_ptr (meta (tensor_meta this))), s)
      | Some blob \<Rightarrow>
          if is_shape_synced (blobs s blob) then Some (Ok (blob_shape_ptr (blobs s blob)), s)
          else (case spin_wait synced fuel 0 of
                  None \<Rightarrow> None
                | Some u \<Rightarrow>
                    Some (Ok (blob_shape_ptr (blobs s blob)),
                          s\<lparr>vm_queue := vm_queue s @ [AccessBlobByCallback blob ''const''],
                            blobs := (blobs s)
                              (blob := (blobs s blob)\<lparr>is_shape_synced := True\<rparr>)\<rparr>)))"
  by (simp add: shape_def PhysicalRun_AccessBlobByCallback Let_def split: option.split)

text \<open>
  Claim C2. \<open>shape()\<close> on an impl without a blob returns the shape pointer of the meta, and
  on an impl whose blob is shape-synced the shape pointer of the blob; in both cases for
  every fuel, zero included, and with the store unchanged, so that no instruction is
  queued and the wait is not entered. If the flag is set within the fuel, \<open>shape()\<close>
  returns. Whenever a call has returned, a second call on the resulting store returns the
  same pointer and leaves that store unchanged, whatever the flag does and with however
  little fuel: it does not go through the rendezvous again.
\<close>

theorem shape_fast_path_and_idempotent:
  "(eager_blob_object this = None \<longrightarrow>
      shape synced fuel s this = Some (Ok (shape_ptr (meta (tensor_meta this))), s))
   \<and> (eager_blob_object this = Some blob \<and> is_shape_synced (blobs s blob) \<longrightarrow>
      shape synced fuel s this = Some (Ok (blob_shape_ptr (blobs s blob)), s))
   \<and> ((\<exists>k < fuel. synced k) \<longrightarrow> (\<exists>p s1. shape synced fuel s this = Some (Ok p, s1)))
   \<and> (shape synced fuel s this = Some (r, s1) \<longrightarrow>
      shape synced' fuel' s1 this = Some (r, s1))"
proof (intro conjI impI)
  assume "\<exists>k < fuel. synced k"
  then have "spin_wait synced fuel 0 = Some ()" by (simp add: spin_wait_Some)
  then show "\<exists>p s1. shape synced fuel s this = Some (Ok p, s1)"
    by (simp add: shape_cases split: option.split)
next
  assume "shape synced fuel s this = Some (r, s1)"
  then show "shape synced' fuel' s1 this = Some (r, s1)"
    by (auto simp: shape_cases split: option.splits if_splits)
qed (simp_all add: shape_cases)

theorem shape_fast_path_and_idempotent_witness:
  "shape (\<lambda>k. False) 0 State0 Impl0 = Some (Ok (shape_ptr (meta (tensor_meta Impl0))), State0)
   \<and> shape (\<lambda>k. False) 0 State3 Impl1 = Some (Ok (blob_shape_ptr (blobs State3 1)), State3)
   \<and> (\<exists>p s1. shape (\<lambda>k. k = 2) 5 State0 Impl1 = Some (Ok p, s1)
         \<and> shape (\<lambda>k. False) 0 s1 Impl1 = Some (Ok p, s1))"
proof -
  have a: "eager_blob_object Impl0 = None"
    by (simp add: Impl0_def EagerMirroredTensorImpl_new3_def)
  have b: "eager_blob_object Impl1 = Some 1 \<and> is_shape_synced (blobs State3 1)"
    by (simp add: Impl1_def State3_def)
  have c: "\<exists>k < (5::nat). (\<lambda>k. k = 2) k" by (rule exI [of _ 2]) simp
  note w1 = shape_fast_path_and_idempotent [THEN conjunct1, THEN mp, OF a]
  note w2 = shape_fast_path_and_idempotent [THEN conjunct2, THEN conjunct1, THEN mp, OF b]
  from shape_fast_path_and_idempotent
         [THEN conjunct2, THEN conjunct2, THEN conjunct1, THEN mp, OF c]
  obtain p s1 where d: "shape (\<lambda>k. k = 2) 5 State0 Impl1 = Some (Ok p, s1)" by blast
  note w4 = shape_fast_path_and_idempotent [THEN conjunct2, THEN conjunct2, THEN conjunct2,
      THEN mp, OF d]
  from d w4
  have e: "\<exists>p s1. shape (\<lambda>k. k = 2) 5 State0 Impl1 = Some (Ok p, s1)
         \<and> shape (\<lambda>k. False) 0 s1 Impl1 = Some (Ok p, s1)" by blast
  show ?thesis by (intro conjI) (rule w1, rule w2, rule e)
qed

section \<open>The release hook\<close>

lemma run_releaser_hook_eq:
  "run_releaser_hook (ReleaseTensorHook blob pd) buf s
     = (Ok (), s\<lparr>vm_queue := vm_queue s @ [ReleaseTensor blob pd]\<rparr>)"
  by (simp add: run_releaser_hook_def PhysicalRun_def builder_ReleaseTensor_def CHECK_JUST_def)

lemma run_refs_no_owner: "use_count w st = 0 \<Longrightarrow> run_refs st w ops = w"
proof (induction ops)
  case Nil
  then show ?case by simp
next
  case (Cons op ops)
  then show ?case by (cases op) (simp_all add: copy_ref_def drop_ref_def)
qed

lemma run_refs_store:
  "rc_store (run_refs st w ops) = rc_store w
   \<or> rc_store (run_refs st w ops) = snd (TensorStorage_destroy st (rc_store w))"
proof (induction ops arbitrary: w)
  case Nil
  then show ?case by simp
next
  case (Cons op ops)
  show ?case
  proof (cases op)
    case CopyPtr
    have "rc_store (copy_ref st w) = rc_store w" by (simp add: copy_ref_def)
    with Cons.IH [of "copy_ref st w"] CopyPtr show ?thesis by simp
  next
    case DropPtr
    show ?thesis
    proof (cases "use_count w st = 1")
      case True
      then have "use_count (drop_ref st w) st = 0" by (simp add: drop_ref_def)
      then have "run_refs st (drop_ref st w) ops = drop_ref st w" by (rule run_refs_no_owner)
      with True DropPtr show ?thesis by (simp add: drop_ref_def)
    next
      case False
      then have "rc_store (drop_ref st w) = rc_store w" by (simp add: drop_ref_def)
      with Cons.IH [of "drop_ref st w"] DropPtr show ?thesis by simp
    qed
  qed
qed

text \<open>
  Claim C10. When \<open>UpdateTensorStorage\<close> succeeds, the impl holds a new storage over the
  tensor buffer of its blob, and the hook of that storage captures the blob and the
  parallel description of the device. Running the hook appends exactly one
  \<open>ReleaseTensor\<close> instruction for that blob to the queue of the execution core and
  changes nothing else in the store: no buffer is freed by the caller. Over any sequence
  of copies and drops of the pointers to one storage, the store either stays as it was or
  ends as the store with that single instruction appended: the hook runs at most once.
\<close>

theorem releaser_hook_issues_one_instruction:
  "(UpdateTensorStorage s this = (Ok (), s', this') \<longrightarrow>
      (\<exists>st blob d. eager_blob_object this = Some blob
         \<and> device (meta (tensor_meta this)) = Some d
         \<and> tensor_storage this' = Some st
         \<and> buffer (storages s' st) = tensor_buffer (blobs s blob)
         \<and> releaser_hook (storages s' st)
             = Some (ReleaseTensorHook blob (parallel_desc_ptr d))))
   \<and> run_releaser_hook (ReleaseTensorHook blob pd) buf s
        = (Ok (), s\<lparr>vm_queue := vm_queue s @ [ReleaseTensor blob pd]\<rparr>)
   \<and> (rc_store (run_refs st w ops) = rc_store w
       \<or> (\<exists>blob pd. releaser_hook (storages (rc_store w) st) = Some (ReleaseTensorHook blob pd)
             \<and> rc_store (run_refs st w ops)
                 = (rc_store w)\<lparr>vm_queue := vm_queue (rc_store w) @ [ReleaseTensor blob pd]\<rparr>))"
proof (intro conjI impI)
  assume "UpdateTensorStorage s this = (Ok (), s', this')"
  then show "\<exists>st blob d. eager_blob_object this = Some blob
         \<and> device (meta (tensor_meta this)) = Some d
         \<and> tensor_storage this' = Some st
         \<and> buffer (storages s' st) = tensor_buffer (blobs s blob)
         \<and> releaser_hook (storages s' st)
             = Some (ReleaseTensorHook blob (parallel_desc_ptr d))"
    by (auto simp: UpdateTensorStorage_def alloc_def Let_def split: option.splits)
next
  show "run_releaser_hook (ReleaseTensorHook blob pd) buf s
        = (Ok (), s\<lparr>vm_queue := vm_queue s @ [ReleaseTensor blob pd]\<rparr>)"
    by (rule run_releaser_hook_eq)
next
  show "rc_store (run_refs st w ops) = rc_store w
       \<or> (\<exists>blob pd. releaser_hook (storages (rc_store w) st) = Some (ReleaseTensorHook blob pd)
             \<and> rc_store (run_refs st w ops)
                 = (rc_store w)\<lparr>vm_queue := vm_queue (rc_store w) @ [ReleaseTensor blob pd]\<rparr>)"
  proof (cases "releaser_hook (storages (rc_store w) st)")
    case None
    then have "snd (TensorStorage_destroy st (rc_store w)) = rc_store w"
      by (simp add: TensorStorage_destroy_def)
    with run_refs_store [of st w ops] show ?thesis by auto
  next
    case (Some hook)
    obtain blob pd where h: "hook = ReleaseTensorHook blob pd" by (cases hook)
    with Some have "snd (TensorStorage_destroy st (rc_store w))
        = (rc_store w)\<lparr>vm_queue := vm_queue (rc_store w) @ [ReleaseTensor blob pd]\<rparr>"
      by (simp add: TensorStorage_destroy_def run_releaser_hook_eq)
    with run_refs_store [of st w ops] Some h show ?thesis by auto
  qed
qed

theorem releaser_hook_issues_one_instruction_witness:
  "(\<exists>s' this' st. UpdateTensorStorage State0 Impl1 = (Ok (), s', this')
        \<and> tensor_storage this' = Some st
        \<and> releaser_hook (storages s' st)
            = Some (ReleaseTensorHook 1 (parallel_desc_ptr Device0)))
   \<and> vm_queue (rc_store
        (run_refs 2 Hooked [CopyPtr, CopyPtr, DropPtr, DropPtr, DropPtr, DropPtr]))
       = [ReleaseTensor 1 Pd0]"
proof -
  obtain s' this' where a: "UpdateTensorStorage State0 Impl1 = (Ok (), s', this')"
    by (simp add: UpdateTensorStorage_def Impl1_def Impl0_def EagerMirroredTensorImpl_new3_def
        Meta0_def alloc_def Let_def)
  have b: "eager_blob_object Impl1 = Some 1" by (simp add: Impl1_def)
  have c: "device (meta (tensor_meta Impl1)) = Some Device0"
    by (simp add: Impl1_def Impl0_def EagerMirroredTensorImpl_new3_def Meta0_def)
  from releaser_hook_issues_one_instruction [THEN conjunct1, THEN mp, OF a] a b c
  have e: "\<exists>s' this' st. UpdateTensorStorage State0 Impl1 = (Ok (), s', this')
        \<and> tensor_storage this' = Some st
        \<and> releaser_hook (storages s' st)
            = Some (ReleaseTensorHook 1 (parallel_desc_ptr Device0))" by auto
  have f: "vm_queue (rc_store
        (run_refs 2 Hooked [CopyPtr, CopyPtr, DropPtr, DropPtr, DropPtr, DropPtr]))
       = [ReleaseTensor 1 Pd0]"
    by (simp add: Hooked_def copy_ref_def drop_ref_def TensorStorage_destroy_def
        run_releaser_hook_eq State0_def)
  show ?thesis by (intro conjI) (rule e, rule f)
qed

section \<open>One share does not determine the extent\<close>

text \<open>
  Whatever the share policy and whatever the way of combining, the share of one rank does
  not determine the extent: with two ranks or more, an extent equal to the number of
  ranks and the next larger extent give some rank the same share. The policy
  \<open>split_extent\<close> is as even as possible.
\<close>

lemma no_inverse_of_even_shares:
  assumes ev: "as_even_as_possible share n" and n: "2 \<le> n"
  shows "\<not> (\<exists>combine. \<forall>extent. \<forall>rank < n. combine (share extent rank) = extent)"
proof
  assume "\<exists>combine. \<forall>extent. \<forall>rank < n. combine (share extent rank) = extent"
  then obtain combine
    where c: "\<And>extent rank. rank < n \<Longrightarrow> combine (share extent rank) = extent"
    by blast
  from n have n0: "0 < n" by simp
  have sumn: "(\<Sum>rank < n. share n rank) = n"
    using ev unfolding as_even_as_possible_def by blast
  have rng: "\<And>rank. rank < n \<Longrightarrow> 1 \<le> share n rank"
    using ev n0 unfolding as_even_as_possible_def
    by (metis div_self le_add1 less_numeral_extra(3) order_refl)
  have all1: "\<And>rank. rank < n \<Longrightarrow> share n rank = 1"
  proof (rule ccontr)
    fix rank assume r: "rank < n" and ne: "share n rank \<noteq> 1"
    with rng have big: "2 \<le> share n rank" by (metis Suc_1 Suc_leI le_neq_implies_less)
    have "(\<Sum>k < n. share n k) = share n rank + (\<Sum>k \<in> {..<n} - {rank}. share n k)"
      using r by (simp add: sum.remove)
    moreover have "(\<Sum>k \<in> {..<n} - {rank}. 1) \<le> (\<Sum>k \<in> {..<n} - {rank}. share n k)"
      by (rule sum_mono) (use rng in auto)
    moreover have "(\<Sum>k \<in> {..<n} - {rank}. (1::nat)) = n - 1" using r by simp
    ultimately show False using sumn big n0 by linarith
  qed
  have d1: "Suc n div n = 1" by (rule div_nat_eqI) (use n in auto)
  have some1: "\<exists>rank < n. share (Suc n) rank = 1"
  proof (rule ccontr)
    assume "\<not> (\<exists>rank < n. share (Suc n) rank = 1)"
    then have two: "\<And>rank. rank < n \<Longrightarrow> share (Suc n) rank = 2"
      using ev d1 unfolding as_even_as_possible_def by (metis one_add_one)
    have "(\<Sum>rank < n. share (Suc n) rank) = (\<Sum>rank < n. 2)"
      by (rule sum.cong) (use two in auto)
    moreover have "(\<Sum>rank < n. share (Suc n) rank) = Suc n"
      using ev unfolding as_even_as_possible_def by blast
    ultimately show False using n by simp
  qed
  then obtain rank where r: "rank < n" and s1: "share (Suc n) rank = 1" by blast
  from c [OF r, of "Suc n"] s1 have "combine 1 = Suc n" by simp
  moreover from c [OF r, of n] all1 [OF r] have "combine 1 = n" by simp
  ultimately show False by simp
qed

lemma sum_indicator_less:
  assumes "m \<le> n"
  shows "(\<Sum>r < n. if r < m then 1 else 0) = (m::nat)"
proof -
  have "(\<Sum>r < n. if r < m then 1 else 0) = (\<Sum>r < n. if r \<in> {..<m} then 1 else (0::nat))"
    by simp
  also have "\<dots> = (\<Sum>r \<in> {..<n} \<inter> {..<m}. 1)"
    by (rule sum.inter_restrict [symmetric]) simp
  also have "{..<n} \<inter> {..<m} = {..<m}" using assms by auto
  finally show ?thesis by simp
qed

lemma split_extent_as_even_as_possible:
  assumes "0 < n"
  shows "as_even_as_possible
           (\<lambda>extent rank. nat (split_extent (int extent) (int n) (int rank))) n"
proof -
  have eq: "\<And>d r. nat (split_extent (int d) (int n) (int r))
               = d div n + (if r < d mod n then 1 else 0)"
    by (simp add: split_extent_def zdiv_int [symmetric] zmod_int [symmetric] nat_add_distrib)
  have "\<And>d. (\<Sum>r < n. d div n + (if r < d mod n then 1 else 0)) = d"
  proof -
    fix d
    have "d mod n \<le> n" using assms by (simp add: less_imp_le)
    then have "(\<Sum>r < n. if r < d mod n then 1 else 0) = d mod n" by (rule sum_indicator_less)
    then show "(\<Sum>r < n. d div n + (if r < d mod n then 1 else 0)) = d"
      by (simp add: sum.distrib)
  qed
  then show ?thesis by (simp add: as_even_as_possible_def eq)
qed

end
